theory Spec2Isabelle
  imports Main "HOL-Library.Sublist" "HOL-Library.Multiset"
begin

section \<open>JavaScript values\<close>

text \<open>
  An optional value (\<open>undefined\<close> or \<open>null\<close> in the source) is \<open>None\<close>. A string is
  falsy when it is absent or empty; a number is falsy when it is absent or zero (numbers
  are modelled as integers).
\<close>

definition truthy :: "string option \<Rightarrow> bool" where
  "truthy v = (case v of None \<Rightarrow> False | Some s \<Rightarrow> s \<noteq> [])"

text \<open>\<^verbatim>\<open>v || undefined\<close> and \<^verbatim>\<open>v || null\<close> on an optional string.\<close>

definition or_none :: "string option \<Rightarrow> string option" where
  "or_none v = (if truthy v then v else None)"

text \<open>\<^verbatim>\<open>v || s\<close> on an optional string with a string default.\<close>

definition or_string :: "string option \<Rightarrow> string \<Rightarrow> string" where
  "or_string v s = (if truthy v then the v else s)"

text \<open>\<^verbatim>\<open>n || d\<close> on an optional number.\<close>

definition or_number :: "int option \<Rightarrow> int \<Rightarrow> int" where
  "or_number n d = (case n of None \<Rightarrow> d | Some k \<Rightarrow> if k = 0 then d else k)"

text \<open>
  The type guard \<^verbatim>\<open>isDefined\<close> (\<^verbatim>\<open>utils/types\<close>) is not among the sources; it is
  modelled by its name and its use: \<^verbatim>\<open>xs.filter(isDefined)\<close> keeps the entries that are
  neither \<open>undefined\<close> nor \<open>null\<close>.
\<close>

definition isDefined :: "'a option \<Rightarrow> bool" where
  "isDefined v = (v \<noteq> None)"

text \<open>\<^verbatim>\<open>Array.prototype.join\<close>.\<close>

fun join :: "string \<Rightarrow> string list \<Rightarrow> string" where
  "join sep [] = []"
| "join sep [x] = x"
| "join sep (x # y # ys) = x @ sep @ join sep (y # ys)"

text \<open>
  \<^verbatim>\<open>Promise.all\<close> over promises that have settled: the list of values when every
  promise is fulfilled, a rejection otherwise. Which rejection wins depends on timing in
  the source; the model takes the first one in list order.
\<close>

fun Promise_all :: "('e + 'a) list \<Rightarrow> 'e + 'a list" where
  "Promise_all [] = Inr []"
| "Promise_all (Inl e # ps) = Inl e"
| "Promise_all (Inr x # ps) = (case Promise_all ps of Inl e \<Rightarrow> Inl e | Inr xs \<Rightarrow> Inr (x # xs))"

section \<open>Data model\<close>

text \<open>
  \<open>SafeError\<close> is the error the controllers throw themselves; \<open>Rejected\<close> is a failure
  of a collaborator (provider client, validation), carrying its message.
\<close>

datatype error = SafeError string | Rejected string

text \<open>The query object both controllers read (the fields they use).\<close>

record ThreadsQuery =
  q :: "string option"
  fromEmail :: "string option"
  type :: "string option"
  labelId :: "string option"
  limit :: "int option"
  nextPageToken :: "string option"
  folderId :: "string option"

text \<open>
  The keys of the \<^verbatim>\<open>GmailLabel\<close> table that \<^verbatim>\<open>getLabelIds\<close> and \<^verbatim>\<open>getQuery\<close>
  read. The table itself (\<^verbatim>\<open>utils/gmail/label\<close>) is a parameter of the model.
\<close>

datatype GmailLabelKey = INBOX | SENT | DRAFT | TRASH | SPAM | STARRED | IMPORTANT | UNREAD

subsection \<open>Gmail-style provider\<close>

text \<open>The arguments of \<^verbatim>\<open>getThreadsWithNextPageToken\<close> (without the client).\<close>

record ThreadsListParams =
  arg_q :: "string option"
  arg_labelIds :: "string list option"
  arg_maxResults :: int
  arg_pageToken :: "string option"

record ThreadSummary =
  summary_id :: "string option"

record ThreadsPage =
  page_threads :: "ThreadSummary list option"
  page_nextPageToken :: "string option"

record PayloadMessage =
  payload_id :: "string option"
  payload_snippet :: "string option"

record ThreadWithPayloadMessages =
  t_id :: "string option"
  t_snippet :: "string option"
  t_messages :: "PayloadMessage list"

text \<open>The header \<^verbatim>\<open>from\<close> is the field \<open>sender\<close>.\<close>

record Headers =
  subject :: string
  sender :: string
  date :: string

record ParsedMessage =
  message_id :: string
  message_snippet :: string
  message_headers :: Headers

subsection \<open>Graph-style provider\<close>

record GraphRequest =
  req_path :: string
  req_top :: "int option"
  req_headers :: "(string \<times> string) list"
  req_filter :: "string option"

text \<open>
  An entry of a Graph response's \<^verbatim>\<open>value\<close> array (a conversation or a message); the
  source types it \<^verbatim>\<open>any\<close> and reads its \<^verbatim>\<open>id\<close>, which every Graph entity carries,
  and its \<^verbatim>\<open>bodyPreview\<close>.
\<close>

record GraphObject =
  obj_id :: string
  bodyPreview :: "string option"

record GraphResponse =
  resp_value :: "GraphObject list option"
  odata_nextLink :: "string option"

type_synonym GraphClient = "GraphRequest \<Rightarrow> error + GraphResponse"

subsection \<open>Local stores\<close>

text \<open>
  Modelled from the spec: the status enum of the generated database client is not among
  the sources; the spec names \<open>PENDING\<close>, \<open>SKIPPED\<close>, \<open>APPLIED\<close> and leaves the rest
  open.
\<close>

datatype ExecutedRuleStatus = PENDING | SKIPPED | APPLIED | OTHER string

record ExecutedRule =
  er_id :: string
  er_emailAccountId :: string
  er_messageId :: string
  er_threadId :: string
  er_rule :: "string option"
  er_actionItems :: "string list"
  er_status :: ExecutedRuleStatus
  er_reason :: "string option"

text \<open>The fields the \<^verbatim>\<open>select\<close> clause keeps.\<close>

record Plan =
  plan_id :: string
  plan_messageId :: string
  plan_threadId :: string
  plan_rule :: "string option"
  plan_actionItems :: "string list"
  plan_status :: ExecutedRuleStatus
  plan_reason :: "string option"

text \<open>
  The contents of the two stores: the executed-rule table and the category store, keyed
  by account and thread. Reads of the stores are modelled as succeeding.
\<close>

record Stores =
  executedRule :: "ExecutedRule list"
  category :: "string \<times> string \<Rightarrow> string option"

subsection \<open>Responses\<close>

record 'm Thread =
  thread_id :: string
  thread_messages :: "'m list"
  thread_snippet :: string
  thread_plan :: "Plan option"
  thread_category :: "string option"

record 'm ThreadsResponse =
  threads :: "'m Thread list"
  res_nextPageToken :: "string option"

text \<open>The calls a controller issues to its mail provider, in the order it starts them.\<close>

datatype provider_call =
  ThreadsList ThreadsListParams
  | ThreadsBatch "string list" string
  | GraphGet GraphRequest

text \<open>
  The collaborators of \<^verbatim>\<open>getThreads\<close> whose code is not part of the controller: the
  label table, the provider's list call, the batch loader, the message parser and the
  snippet decoder.
\<close>

record GmailEnv =
  GmailLabel :: "GmailLabelKey \<Rightarrow> string"
  getThreadsWithNextPageToken :: "ThreadsListParams \<Rightarrow> error + ThreadsPage"
  getThreadsBatch :: "string list \<Rightarrow> string \<Rightarrow> error + ThreadWithPayloadMessages list"
  parseMessages :: "ThreadWithPayloadMessages \<Rightarrow> ParsedMessage list"
  decodeSnippet :: "string option \<Rightarrow> string"

section \<open>Store reads\<close>

definition select_plan :: "ExecutedRule \<Rightarrow> Plan" where
  "select_plan r =
     \<lparr>plan_id = er_id r, plan_messageId = er_messageId r, plan_threadId = er_threadId r,
      plan_rule = er_rule r, plan_actionItems = er_actionItems r,
      plan_status = er_status r, plan_reason = er_reason r\<rparr>"

text \<open>
  \<^verbatim>\<open>prisma.executedRule.findMany\<close> with the \<^verbatim>\<open>where\<close> clause of the controllers:
  the account, a thread id of the page, and status \<open>PENDING\<close> or \<open>SKIPPED\<close>.
\<close>

definition findMany :: "ExecutedRule list \<Rightarrow> string \<Rightarrow> string list \<Rightarrow> Plan list" where
  "findMany table emailAccountId threadIds =
     map select_plan
       (filter (\<lambda>r. er_emailAccountId r = emailAccountId
                    \<and> er_threadId r \<in> set threadIds
                    \<and> er_status r \<in> set [PENDING, SKIPPED]) table)"

text \<open>
  Modelled from the spec: \<^verbatim>\<open>getCategory\<close> (\<^verbatim>\<open>utils/redis/category\<close>) is not among
  the sources; the record store answers with the tag kept for the account and the thread,
  or none.
\<close>

definition getCategory :: "Stores \<Rightarrow> string \<Rightarrow> string \<Rightarrow> string option" where
  "getCategory db emailAccountId threadId = category db (emailAccountId, threadId)"

section \<open>The Gmail-style controller\<close>

definition getQuery :: "(GmailLabelKey \<Rightarrow> string) \<Rightarrow> ThreadsQuery \<Rightarrow> string option" where
  "getQuery labels query =
     (if truthy (q query) then q query
      else if truthy (fromEmail query) then Some (''from:'' @ the (fromEmail query))
      else if type query = Some ''archive'' then Some (''-label:'' @ labels INBOX)
      else None)"

definition getLabelIds :: "(GmailLabelKey \<Rightarrow> string) \<Rightarrow> string option \<Rightarrow> string list option" where
  "getLabelIds labels ty =
     (if ty = Some ''inbox'' then Some [labels INBOX]
      else if ty = Some ''sent'' then Some [labels SENT]
      else if ty = Some ''draft'' then Some [labels DRAFT]
      else if ty = Some ''trash'' then Some [labels TRASH]
      else if ty = Some ''spam'' then Some [labels SPAM]
      else if ty = Some ''starred'' then Some [labels STARRED]
      else if ty = Some ''important'' then Some [labels IMPORTANT]
      else if ty = Some ''unread'' then Some [labels UNREAD]
      else if ty = Some ''archive'' then None
      else if ty = Some ''all'' then None
      else if \<not> truthy ty \<or> ty = Some ''undefined'' \<or> ty = Some ''null''
        then Some [labels INBOX]
      else Some [the ty])"

text \<open>The argument object of the call to \<^verbatim>\<open>getThreadsWithNextPageToken\<close>.\<close>

definition listParams :: "(GmailLabelKey \<Rightarrow> string) \<Rightarrow> ThreadsQuery \<Rightarrow> ThreadsListParams" where
  "listParams labels query =
     \<lparr>arg_q = getQuery labels query,
      arg_labelIds = (if truthy (labelId query) then Some [the (labelId query)]
                      else getLabelIds labels (type query)),
      arg_maxResults = or_number (limit query) 50,
      arg_pageToken = or_none (nextPageToken query)\<rparr>"

text \<open>\<^verbatim>\<open>gmailThreads?.map((t) => t.id).filter(isDefined) || []\<close>\<close>

definition pageThreadIds :: "ThreadsPage \<Rightarrow> string list" where
  "pageThreadIds page =
     (case page_threads page of
        None \<Rightarrow> []
      | Some ts \<Rightarrow> map the (filter isDefined (map summary_id ts)))"

text \<open>The callback mapped over the loaded threads; \<open>None\<close> is its bare \<^verbatim>\<open>return\<close>.\<close>

definition withMessages ::
  "GmailEnv \<Rightarrow> Stores \<Rightarrow> string \<Rightarrow> Plan list \<Rightarrow> ThreadWithPayloadMessages
     \<Rightarrow> ParsedMessage Thread option" where
  "withMessages gmail db emailAccountId plans thread =
     (let id = t_id thread in
      if \<not> truthy id then None
      else
        let messages = parseMessages gmail thread;
            plan = find (\<lambda>p. plan_threadId p = the id) plans
        in Some \<lparr>thread_id = the id, thread_messages = messages,
                 thread_snippet = decodeSnippet gmail (t_snippet thread),
                 thread_plan = plan,
                 thread_category = getCategory db emailAccountId (the id)\<rparr>)"

definition getThreads ::
  "GmailEnv \<Rightarrow> Stores \<Rightarrow> ThreadsQuery \<Rightarrow> string option \<Rightarrow> string
     \<Rightarrow> provider_call list \<times> (error + ParsedMessage ThreadsResponse)" where
  "getThreads gmail db query accessToken emailAccountId =
     (if \<not> truthy accessToken then ([], Inl (SafeError ''Missing access token''))
      else
        (let params = listParams (GmailLabel gmail) query in
         case getThreadsWithNextPageToken gmail params of
           Inl e \<Rightarrow> ([ThreadsList params], Inl e)
         | Inr page \<Rightarrow>
             (let threadIds = pageThreadIds page;
                  calls = [ThreadsList params, ThreadsBatch threadIds (the accessToken)];
                  plans = findMany (executedRule db) emailAccountId threadIds
              in case getThreadsBatch gmail threadIds (the accessToken) of
                   Inl e \<Rightarrow> (calls, Inl e)
                 | Inr loaded \<Rightarrow>
                     (let threadsWithMessages =
                            map (withMessages gmail db emailAccountId plans) loaded
                      in (calls,
                          Inr \<lparr>threads = map the (filter isDefined threadsWithMessages),
                               res_nextPageToken = page_nextPageToken page\<rparr>)))))"

text \<open>
  Modelled from the spec: \<^verbatim>\<open>getThreadsBatch\<close> (\<^verbatim>\<open>utils/gmail/thread\<close>) is not among
  the sources. The spec's Batch Message Loader takes the thread identifiers of the page
  and returns a mapping from identifier to the thread's content; a thread whose fetch
  fails is dropped from the mapping instead of failing the page. The mapping is keyed and
  order-independent: each entry is keyed by the identifier it was asked for, and the order
  in which the entries reach the controller is the loader's own. \<open>fetch\<close> is the
  provider's answer for one thread; \<open>arrange\<close> is the order the loader hands its
  entries over in, a rearrangement of them.
\<close>

definition loadMessages ::
  "(ThreadWithPayloadMessages list \<Rightarrow> ThreadWithPayloadMessages list)
     \<Rightarrow> (string \<Rightarrow> string \<Rightarrow> error + ThreadWithPayloadMessages) \<Rightarrow> string list \<Rightarrow> string
     \<Rightarrow> error + ThreadWithPayloadMessages list" where
  "loadMessages arrange fetch threadIds accessToken =
     Inr (arrange
            (List.map_filter
               (\<lambda>i. case fetch i accessToken of
                       Inl e \<Rightarrow> None
                     | Inr t \<Rightarrow> Some (t\<lparr>t_id := Some i\<rparr>))
               threadIds))"

section \<open>The Graph-style controller\<close>

definition getFilter :: "ThreadsQuery \<Rightarrow> string option" where
  "getFilter query =
     (let filters = [];
          filters = (if truthy (q query)
                     then filters @ [''contains(subject,'' @ [CHR 0x27] @ the (q query)
                                       @ [CHR 0x27] @ '')'']
                     else filters);
          filters = (if truthy (fromEmail query)
                     then filters @ [''from/emailAddress/address eq '' @ [CHR 0x27]
                                       @ the (fromEmail query) @ [CHR 0x27]]
                     else filters)
      in if length filters \<noteq> 0 then Some (join '' and '' filters) else None)"

text \<open>The request builder of the Graph client.\<close>

definition api :: "string \<Rightarrow> GraphRequest" where
  "api path = \<lparr>req_path = path, req_top = None, req_headers = [], req_filter = None\<rparr>"

definition top :: "int \<Rightarrow> GraphRequest \<Rightarrow> GraphRequest" where
  "top n request = request\<lparr>req_top := Some n\<rparr>"

definition header :: "string \<Rightarrow> string \<Rightarrow> GraphRequest \<Rightarrow> GraphRequest" where
  "header k v request = request\<lparr>req_headers := req_headers request @ [(k, v)]\<rparr>"

definition filter_by :: "string \<Rightarrow> GraphRequest \<Rightarrow> GraphRequest" where
  "filter_by f request = request\<lparr>req_filter := Some f\<rparr>"

text \<open>The request for the page of conversations.\<close>

definition conversationsRequest :: "ThreadsQuery \<Rightarrow> GraphRequest" where
  "conversationsRequest query =
     (let request = top (or_number (limit query) 50) (api ''/me/conversations'');
          request = (if truthy (nextPageToken query)
                     then header ''skipToken'' (the (nextPageToken query)) request
                     else request);
          filter = getFilter query;
          request = (if truthy filter then filter_by (the filter) request else request)
      in request)"

text \<open>\<^verbatim>\<open>response.value || []\<close>\<close>

definition responseValue :: "GraphResponse \<Rightarrow> GraphObject list" where
  "responseValue response = (case resp_value response of None \<Rightarrow> [] | Some v \<Rightarrow> v)"

text \<open>The request for the messages of one conversation.\<close>

definition messagesRequest :: "string \<Rightarrow> GraphRequest" where
  "messagesRequest conversationId = api (''/me/conversations/'' @ conversationId @ ''/threads'')"

text \<open>
  The callback mapped over the conversations, once its request has settled:
  a rejected request rejects the callback.
\<close>

definition withOutlookMessages ::
  "GraphClient \<Rightarrow> Stores \<Rightarrow> string \<Rightarrow> Plan list \<Rightarrow> GraphObject
     \<Rightarrow> error + GraphObject Thread" where
  "withOutlookMessages graphClient db emailAccountId plans conv =
     (let id = obj_id conv in
      case graphClient (messagesRequest id) of
        Inl e \<Rightarrow> Inl e
      | Inr messagesRes \<Rightarrow>
          (let messages = responseValue messagesRes;
               plan = find (\<lambda>p. plan_threadId p = id) plans
           in Inr \<lparr>thread_id = id, thread_messages = messages,
                   thread_snippet =
                     or_string (case messages of [] \<Rightarrow> None | m # ms \<Rightarrow> bodyPreview m) [],
                   thread_plan = plan,
                   thread_category = getCategory db emailAccountId id\<rparr>))"

definition getOutlookThreads ::
  "GraphClient \<Rightarrow> Stores \<Rightarrow> ThreadsQuery \<Rightarrow> string option \<Rightarrow> string
     \<Rightarrow> provider_call list \<times> (error + GraphObject ThreadsResponse)" where
  "getOutlookThreads graphClient db query accessToken emailAccountId =
     (if \<not> truthy accessToken then ([], Inl (SafeError ''Missing access token''))
      else
        (let request = conversationsRequest query in
         case graphClient request of
           Inl e \<Rightarrow> ([GraphGet request], Inl e)
         | Inr response \<Rightarrow>
             (let conversations = responseValue response;
                  nextPage = or_none (odata_nextLink response);
                  conversationIds = map obj_id conversations;
                  plans = findMany (executedRule db) emailAccountId conversationIds;
                  calls = GraphGet request
                          # map (\<lambda>conv. GraphGet (messagesRequest (obj_id conv))) conversations
              in case Promise_all
                        (map (withOutlookMessages graphClient db emailAccountId plans)
                           conversations) of
                   Inl e \<Rightarrow> (calls, Inl e)
                 | Inr threadsWithMessages \<Rightarrow>
                     (calls,
                      Inr \<lparr>threads = threadsWithMessages, res_nextPageToken = nextPage\<rparr>))))"

section \<open>The Outlook threads route\<close>

text \<open>
  \<^verbatim>\<open>NextResponse.json(body, init)\<close>: the status is the one given, 200 when none is.
\<close>

datatype response_body = ErrorBody string | ThreadsBody "GraphObject ThreadsResponse"

record NextResponse =
  body :: response_body
  status :: nat

definition NextResponse_json :: "response_body \<Rightarrow> nat option \<Rightarrow> NextResponse" where
  "NextResponse_json b init =
     \<lparr>body = b, status = (case init of None \<Rightarrow> 200 | Some s \<Rightarrow> s)\<rparr>"

record Request =
  auth_emailAccountId :: string
  searchParams :: "(string \<times> string) list"

text \<open>The object handed to \<^verbatim>\<open>threadsQuery.parse\<close>.\<close>

record RawQuery =
  raw_limit :: "string option"
  raw_fromEmail :: "string option"
  raw_type :: "string option"
  raw_nextPageToken :: "string option"
  raw_q :: "string option"
  raw_folderId :: "string option"

text \<open>
  The collaborators of the route: the validation schema and the account lookup that
  supplies the Graph client and the access token.
\<close>

record RouteEnv =
  threadsQuery_parse :: "RawQuery \<Rightarrow> error + ThreadsQuery"
  getGraphClientAndAccessTokenForEmail :: "string \<Rightarrow> error + (GraphClient \<times> string option)"

text \<open>The search parameters the handler reads, as handed to the schema.\<close>

definition rawQuery :: "Request \<Rightarrow> RawQuery" where
  "rawQuery request =
     (let get = map_of (searchParams request)
      in \<lparr>raw_limit = get ''limit'', raw_fromEmail = get ''fromEmail'',
           raw_type = get ''type'', raw_nextPageToken = get ''nextPageToken'',
           raw_q = get ''q'', raw_folderId = get ''folderId''\<rparr>)"

text \<open>
  The handler. \<open>Inl\<close> is an exception that leaves the handler for the middleware
  around it.
\<close>

definition GET ::
  "RouteEnv \<Rightarrow> Stores \<Rightarrow> Request \<Rightarrow> provider_call list \<times> (error + NextResponse)" where
  "GET env db request =
     (let emailAccountId = auth_emailAccountId request in
      case threadsQuery_parse env (rawQuery request) of
        Inl e \<Rightarrow> ([], Inl e)
      | Inr query \<Rightarrow>
          (case getGraphClientAndAccessTokenForEmail env emailAccountId of
             Inl e \<Rightarrow> ([], Inl e)
           | Inr (graphClient, accessToken) \<Rightarrow>
               if \<not> truthy accessToken
               then ([], Inr (NextResponse_json (ErrorBody ''Account not found'') None))
               else
                 (case getOutlookThreads graphClient db query accessToken emailAccountId of
                    (calls, Inl e) \<Rightarrow> (calls, Inl e)
                  | (calls, Inr page) \<Rightarrow>
                      (calls, Inr (NextResponse_json (ThreadsBody page) None)))))"

section \<open>The reply-tracker response\<close>

record ReplyTrackerThread =
  rt_id :: string
  rt_messages :: "ParsedMessage list"

record ReplyTrackerEmail =
  email_threadId :: string
  email_subject :: "string option"
  email_from :: "string option"
  email_date :: "string option"
  email_snippet :: "string option"

text \<open>\<^verbatim>\<open>xs[xs.length - 1]\<close>: \<open>undefined\<close> on an empty array.\<close>

definition last_opt :: "'a list \<Rightarrow> 'a option" where
  "last_opt xs = (if xs = [] then None else Some (last xs))"

definition replyTrackerEmails :: "ReplyTrackerThread list \<Rightarrow> ReplyTrackerEmail list" where
  "replyTrackerEmails ts =
     map (\<lambda>thread.
            \<lparr>email_threadId = rt_id thread,
             email_subject = map_option (\<lambda>m. subject (message_headers m)) (last_opt (rt_messages thread)),
             email_from = map_option (\<lambda>m. sender (message_headers m)) (last_opt (rt_messages thread)),
             email_date = map_option (\<lambda>m. date (message_headers m)) (last_opt (rt_messages thread)),
             email_snippet = map_option message_snippet (last_opt (rt_messages thread))\<rparr>)
       ts"

section \<open>Concrete inputs\<close>

text \<open>The type values \<^verbatim>\<open>getLabelIds\<close> has a case for.\<close>

definition recognizedTypes :: "string list" where
  "recognizedTypes =
     [''inbox'', ''sent'', ''draft'', ''trash'', ''spam'', ''starred'', ''important'',
      ''unread'', ''archive'', ''all'']"

definition non2xx :: "nat \<Rightarrow> bool" where
  "non2xx s = (s < 200 \<or> 300 \<le> s)"

text \<open>A label table that names each system label after its key.\<close>

definition example_labels :: "GmailLabelKey \<Rightarrow> string" where
  "example_labels k =
     (case k of INBOX \<Rightarrow> ''INBOX'' | SENT \<Rightarrow> ''SENT'' | DRAFT \<Rightarrow> ''DRAFT''
      | TRASH \<Rightarrow> ''TRASH'' | SPAM \<Rightarrow> ''SPAM'' | STARRED \<Rightarrow> ''STARRED''
      | IMPORTANT \<Rightarrow> ''IMPORTANT'' | UNREAD \<Rightarrow> ''UNREAD'')"

text \<open>
  The scenario of the spec: the provider returns the identifiers \<open>A\<close> and \<open>B\<close> and
  a cursor, the messages of \<open>A\<close> resolve, the fetch for \<open>B\<close> fails, and the store holds
  a pending record for \<open>A\<close>.
\<close>

definition example_page :: ThreadsPage where
  "example_page =
     \<lparr>page_threads = Some [\<lparr>summary_id = Some ''A''\<rparr>, \<lparr>summary_id = Some ''B''\<rparr>],
      page_nextPageToken = Some ''cursor-2''\<rparr>"

definition example_thread :: ThreadWithPayloadMessages where
  "example_thread =
     \<lparr>t_id = Some ''A'', t_snippet = Some ''hello'',
      t_messages = [\<lparr>payload_id = Some ''m1'', payload_snippet = Some ''hello''\<rparr>]\<rparr>"

definition example_fetch :: "string \<Rightarrow> string \<Rightarrow> error + ThreadWithPayloadMessages" where
  "example_fetch i accessToken =
     (if i = ''A'' then Inr example_thread else Inl (Rejected ''thread fetch failed''))"


definition example_parse :: "ThreadWithPayloadMessages \<Rightarrow> ParsedMessage list" where
  "example_parse t =
     map (\<lambda>m. \<lparr>message_id = or_string (payload_id m) [],
               message_snippet = or_string (payload_snippet m) [],
               message_headers = \<lparr>subject = [], sender = [], date = []\<rparr>\<rparr>)
       (t_messages t)"

definition example_gmail :: GmailEnv where
  "example_gmail =
     \<lparr>GmailLabel = example_labels,
      getThreadsWithNextPageToken = (\<lambda>params. Inr example_page),
      getThreadsBatch = loadMessages (\<lambda>entries. entries) example_fetch,
      parseMessages = example_parse,
      decodeSnippet = (\<lambda>s. or_string s [])\<rparr>"

definition example_rule :: ExecutedRule where
  "example_rule =
     \<lparr>er_id = ''r1'', er_emailAccountId = ''acct'', er_messageId = ''m1'',
      er_threadId = ''A'', er_rule = Some ''archive newsletters'', er_actionItems = [],
      er_status = PENDING, er_reason = None\<rparr>"

definition example_db :: Stores where
  "example_db = \<lparr>executedRule = [example_rule], category = (\<lambda>k. None)\<rparr>"

definition inbox_query :: ThreadsQuery where
  "inbox_query =
     \<lparr>q = None, fromEmail = None, type = Some ''inbox'', labelId = None, limit = Some 2,
      nextPageToken = Some ''cursor-1'', folderId = None\<rparr>"

definition archive_query :: ThreadsQuery where
  "archive_query =
     \<lparr>q = None, fromEmail = None, type = Some ''archive'', labelId = None, limit = None,
      nextPageToken = None, folderId = None\<rparr>"

definition custom_type_query :: ThreadsQuery where
  "custom_type_query =
     \<lparr>q = None, fromEmail = None, type = Some ''Label_1'', labelId = None, limit = None,
      nextPageToken = None, folderId = None\<rparr>"

definition undefined_type_query :: ThreadsQuery where
  "undefined_type_query =
     \<lparr>q = None, fromEmail = None, type = Some ''undefined'', labelId = None, limit = None,
      nextPageToken = None, folderId = None\<rparr>"

definition search_query :: ThreadsQuery where
  "search_query =
     \<lparr>q = Some ''hello'', fromEmail = Some ''a@b.com'', type = None, labelId = None,
      limit = None, nextPageToken = None, folderId = None\<rparr>"

definition sent_folder_query :: ThreadsQuery where
  "sent_folder_query =
     \<lparr>q = None, fromEmail = None, type = Some ''sent'', labelId = None, limit = Some 2,
      nextPageToken = Some ''cursor-1'', folderId = Some ''folder-7''\<rparr>"

text \<open>
  A Graph client that lists the conversations \<open>A\<close> and \<open>B\<close>, answers the messages of
  \<open>A\<close> (two of them) and rejects every other request; and one that also answers \<open>B\<close>.
\<close>

definition example_conversations :: GraphResponse where
  "example_conversations =
     \<lparr>resp_value = Some [\<lparr>obj_id = ''A'', bodyPreview = None\<rparr>,
                         \<lparr>obj_id = ''B'', bodyPreview = None\<rparr>],
      odata_nextLink = Some ''https://graph/next''\<rparr>"

definition example_messages :: GraphResponse where
  "example_messages =
     \<lparr>resp_value = Some [\<lparr>obj_id = ''m1'', bodyPreview = Some ''first''\<rparr>,
                         \<lparr>obj_id = ''m2'', bodyPreview = Some ''last''\<rparr>],
      odata_nextLink = None\<rparr>"

definition failing_client :: GraphClient where
  "failing_client request =
     (if req_path request = ''/me/conversations'' then Inr example_conversations
      else if req_path request = ''/me/conversations/A/threads'' then Inr example_messages
      else Inl (Rejected ''request failed''))"

definition healthy_client :: GraphClient where
  "healthy_client request =
     (if req_path request = ''/me/conversations'' then Inr example_conversations
      else if req_path request = ''/me/conversations/A/threads'' then Inr example_messages
      else Inr \<lparr>resp_value = None, odata_nextLink = None\<rparr>)"

text \<open>A route whose account lookup finds no access token.\<close>

definition tokenless_env :: RouteEnv where
  "tokenless_env =
     \<lparr>threadsQuery_parse = (\<lambda>raw. Inr inbox_query),
      getGraphClientAndAccessTokenForEmail = (\<lambda>emailAccountId. Inr (healthy_client, None))\<rparr>"

definition example_request :: Request where
  "example_request =
     \<lparr>auth_emailAccountId = ''acct'', searchParams = [(''type'', ''inbox''), (''limit'', ''2'')]\<rparr>"

definition example_tracked :: ReplyTrackerThread where
  "example_tracked =
     \<lparr>rt_id = ''A'',
      rt_messages =
        [\<lparr>message_id = ''m1'', message_snippet = ''first'',
          message_headers = \<lparr>subject = ''s'', sender = ''x@y.com'', date = ''d1''\<rparr>\<rparr>,
         \<lparr>message_id = ''m2'', message_snippet = ''last'',
          message_headers = \<lparr>subject = ''s'', sender = ''z@y.com'', date = ''d2''\<rparr>\<rparr>]\<rparr>"

section \<open>Basic facts\<close>

lemma truthy_Some: "truthy (Some s) = (s \<noteq> [])"
  by (simp add: truthy_def)

lemma truthy_None: "truthy None = False"
  by (simp add: truthy_def)

lemma truthyE: "truthy v \<Longrightarrow> \<exists>s. v = Some s \<and> s \<noteq> []"
  by (cases v) (simp_all add: truthy_def)

text \<open>With an access token, the first call of each controller is its list request.\<close>

lemma getThreads_first_call:
  "truthy accessToken \<Longrightarrow>
   \<exists>rest. fst (getThreads gmail db query accessToken emailAccountId)
           = ThreadsList (listParams (GmailLabel gmail) query) # rest"
  by (simp add: getThreads_def Let_def split: sum.splits)

lemma getOutlookThreads_first_call:
  "truthy accessToken \<Longrightarrow>
   \<exists>rest. fst (getOutlookThreads graphClient db query accessToken emailAccountId)
           = GraphGet (conversationsRequest query) # rest"
  by (simp add: getOutlookThreads_def Let_def split: sum.splits)

section \<open>Query translation\<close>

text \<open>
  C9. For a query with type \<open>archive\<close>, no label id, no free-text query and no sender,
  and with the label table naming the inbox label \<open>INBOX\<close>, the list request that
  \<^verbatim>\<open>getThreads\<close> issues carries the search string \<open>-label:INBOX\<close> exactly and no
  label-id list.
\<close>

theorem archive_search_string:
  assumes "truthy accessToken"
    and "GmailLabel gmail INBOX = ''INBOX''"
    and "type query = Some ''archive''"
    and "\<not> truthy (labelId query)"
    and "\<not> truthy (q query)"
    and "\<not> truthy (fromEmail query)"
  shows "\<exists>params rest.
           fst (getThreads gmail db query accessToken emailAccountId) = ThreadsList params # rest
           \<and> arg_q params = Some ''-label:INBOX''
           \<and> arg_labelIds params = None"
proof -
  obtain rest where
    "fst (getThreads gmail db query accessToken emailAccountId)
       = ThreadsList (listParams (GmailLabel gmail) query) # rest"
    using getThreads_first_call [OF assms(1)] by blast
  moreover have "arg_q (listParams (GmailLabel gmail) query) = Some ''-label:INBOX''"
    using assms by (simp add: listParams_def getQuery_def)
  moreover have "arg_labelIds (listParams (GmailLabel gmail) query) = None"
    using assms by (simp add: listParams_def getLabelIds_def)
  ultimately show ?thesis by blast
qed

text \<open>C9 at the archive query of the example account.\<close>

theorem archive_search_string_witness:
  "\<exists>params rest.
     fst (getThreads example_gmail example_db archive_query (Some ''token'') ''acct'')
       = ThreadsList params # rest
     \<and> arg_q params = Some ''-label:INBOX''
     \<and> arg_labelIds params = None"
  using archive_search_string
          [of "Some ''token''" example_gmail archive_query example_db "''acct''"]
  by (simp add: truthy_def example_gmail_def example_labels_def archive_query_def)

text \<open>
  C3 as stated fails: the type \<open>Label_1\<close> is outside the recognized values, no label id
  is given, and the label-id list is \<open>[Label_1]\<close>, not the inbox label.
\<close>

theorem custom_type_counterexample:
  "''Label_1'' \<notin> set recognizedTypes
   \<and> type custom_type_query = Some ''Label_1''
   \<and> labelId custom_type_query = None
   \<and> arg_labelIds (listParams example_labels custom_type_query) = Some [''Label_1'']
   \<and> arg_labelIds (listParams example_labels custom_type_query) \<noteq> Some [example_labels INBOX]"
  by (simp add: recognizedTypes_def custom_type_query_def listParams_def getLabelIds_def
      truthy_def example_labels_def)

text \<open>
  C3, amended. For a type outside the recognized values and no label id, the list request
  of \<^verbatim>\<open>getThreads\<close> carries the label-id list \<open>[INBOX]\<close> when the type is absent, empty,
  \<open>undefined\<close> or \<open>null\<close>, and the one-element list of the type value itself otherwise.
\<close>

theorem unrecognized_type_label_ids:
  assumes "truthy accessToken"
    and "\<not> truthy (labelId query)"
    and "type query \<notin> Some ` set recognizedTypes"
  shows "\<exists>params rest.
           fst (getThreads gmail db query accessToken emailAccountId) = ThreadsList params # rest
           \<and> arg_labelIds params =
               (if \<not> truthy (type query) \<or> type query = Some ''undefined''
                   \<or> type query = Some ''null''
                then Some [GmailLabel gmail INBOX]
                else Some [the (type query)])"
proof -
  obtain rest where
    "fst (getThreads gmail db query accessToken emailAccountId)
       = ThreadsList (listParams (GmailLabel gmail) query) # rest"
    using getThreads_first_call [OF assms(1)] by blast
  moreover have "arg_labelIds (listParams (GmailLabel gmail) query) =
               (if \<not> truthy (type query) \<or> type query = Some ''undefined''
                   \<or> type query = Some ''null''
                then Some [GmailLabel gmail INBOX]
                else Some [the (type query)])"
    using assms(2,3) by (simp add: listParams_def getLabelIds_def recognizedTypes_def)
  ultimately show ?thesis by blast
qed

text \<open>C3, amended, at the type \<open>undefined\<close>.\<close>

theorem unrecognized_type_label_ids_witness:
  "\<exists>params rest.
     fst (getThreads example_gmail example_db undefined_type_query (Some ''token'') ''acct'')
       = ThreadsList params # rest
     \<and> arg_labelIds params = Some [''INBOX'']"
  using unrecognized_type_label_ids
          [of "Some ''token''" undefined_type_query example_gmail example_db "''acct''"]
  by (simp add: truthy_def example_gmail_def example_labels_def undefined_type_query_def
      recognizedTypes_def)

text \<open>
  C2 as stated fails on the Graph side: with free-text query \<open>hello\<close> and sender
  \<open>a@b.com\<close> both set, the filter of the issued request still holds the sender
  sub-filter.
\<close>

theorem sender_filter_kept_counterexample:
  "truthy (q search_query) \<and> truthy (fromEmail search_query)
   \<and> fst (getOutlookThreads failing_client example_db search_query (Some ''token'') ''acct'')
       ! 0
       = GraphGet
           \<lparr>req_path = ''/me/conversations'', req_top = Some 50, req_headers = [],
            req_filter =
              Some (''contains(subject,'' @ [CHR 0x27] @ ''hello'' @ [CHR 0x27]
                    @ '') and from/emailAddress/address eq '' @ [CHR 0x27] @ ''a@b.com''
                    @ [CHR 0x27])\<rparr>
   \<and> sublist (''from/emailAddress/address eq '' @ [CHR 0x27] @ ''a@b.com'' @ [CHR 0x27])
       (the (getFilter search_query))"
proof -
  have f: "getFilter search_query =
        Some (''contains(subject,'' @ [CHR 0x27] @ ''hello'' @ [CHR 0x27]
                    @ '') and from/emailAddress/address eq '' @ [CHR 0x27] @ ''a@b.com''
                    @ [CHR 0x27])"
    by (simp add: getFilter_def search_query_def truthy_def)
  have r: "conversationsRequest search_query =
      \<lparr>req_path = ''/me/conversations'', req_top = Some 50, req_headers = [],
            req_filter =
              Some (''contains(subject,'' @ [CHR 0x27] @ ''hello'' @ [CHR 0x27]
                    @ '') and from/emailAddress/address eq '' @ [CHR 0x27] @ ''a@b.com''
                    @ [CHR 0x27])\<rparr>"
    unfolding conversationsRequest_def Let_def f
    by (simp add: search_query_def truthy_def or_number_def top_def api_def filter_by_def)
  have s: "sublist (''from/emailAddress/address eq '' @ [CHR 0x27] @ ''a@b.com'' @ [CHR 0x27])
       (the (getFilter search_query))"
    unfolding f option.sel
    by code_simp
  obtain rest where c: "fst (getOutlookThreads failing_client example_db search_query (Some ''token'') ''acct'')
           = GraphGet (conversationsRequest search_query) # rest"
    using getOutlookThreads_first_call
            [of "Some ''token''" failing_client example_db search_query "''acct''"]
    by (auto simp: truthy_def)
  show ?thesis
    using s by (simp add: c r) (simp add: search_query_def truthy_def)
qed

text \<open>
  C2, amended. When both the free-text query and the sender are set, the list request of
  \<^verbatim>\<open>getThreads\<close> carries exactly the free-text query as its search string, and the
  request of \<^verbatim>\<open>getOutlookThreads\<close> carries the conjunction of the subject filter and
  the sender filter.
\<close>

theorem free_text_and_sender:
  assumes "truthy accessToken" and "truthy (q query)" and "truthy (fromEmail query)"
  shows "(\<exists>params rest.
            fst (getThreads gmail db query accessToken emailAccountId) = ThreadsList params # rest
            \<and> arg_q params = q query)
         \<and> (\<exists>request rest.
            fst (getOutlookThreads graphClient db query accessToken emailAccountId)
              = GraphGet request # rest
            \<and> req_filter request =
                Some (''contains(subject,'' @ [CHR 0x27] @ the (q query) @ [CHR 0x27]
                      @ '') and from/emailAddress/address eq '' @ [CHR 0x27]
                      @ the (fromEmail query) @ [CHR 0x27]))"
proof -
  have "arg_q (listParams (GmailLabel gmail) query) = q query"
    using assms(2) by (simp add: listParams_def getQuery_def)
  then have gm: "\<exists>params rest.
            fst (getThreads gmail db query accessToken emailAccountId) = ThreadsList params # rest
            \<and> arg_q params = q query"
    using getThreads_first_call [OF assms(1)] by blast
  have f: "getFilter query =
        Some (''contains(subject,'' @ [CHR 0x27] @ the (q query) @ [CHR 0x27]
                      @ '') and from/emailAddress/address eq '' @ [CHR 0x27]
                      @ the (fromEmail query) @ [CHR 0x27])"
    using assms(2,3) by (simp add: getFilter_def)
  have "req_filter (conversationsRequest query) = getFilter query"
    unfolding conversationsRequest_def Let_def
    by (simp add: f truthy_def top_def api_def filter_by_def header_def)
  then have "\<exists>request rest.
            fst (getOutlookThreads graphClient db query accessToken emailAccountId)
              = GraphGet request # rest
            \<and> req_filter request = getFilter query"
    using getOutlookThreads_first_call [OF assms(1)] by blast
  with gm show ?thesis unfolding f by blast
qed

text \<open>C2, amended, at that query.\<close>

theorem free_text_and_sender_witness:
  "(\<exists>params rest.
      fst (getThreads example_gmail example_db search_query (Some ''token'') ''acct'')
        = ThreadsList params # rest
      \<and> arg_q params = Some ''hello'')
   \<and> (\<exists>request rest.
      fst (getOutlookThreads failing_client example_db search_query (Some ''token'') ''acct'')
        = GraphGet request # rest
      \<and> req_filter request =
          Some (''contains(subject,'' @ [CHR 0x27] @ ''hello'' @ [CHR 0x27]
                @ '') and from/emailAddress/address eq '' @ [CHR 0x27] @ ''a@b.com''
                @ [CHR 0x27]))"
  using free_text_and_sender
     [of "Some ''token''" search_query example_gmail example_db "''acct''" failing_client]
  by (simp add: truthy_def search_query_def)

text \<open>The conversations request reads four fields of the query only.\<close>

lemma conversationsRequest_cong:
  assumes "q a = q b" and "fromEmail a = fromEmail b" and "limit a = limit b"
    and "nextPageToken a = nextPageToken b"
  shows "conversationsRequest a = conversationsRequest b"
proof -
  have "getFilter a = getFilter b"
    unfolding getFilter_def assms ..
  then show ?thesis
    unfolding conversationsRequest_def assms by simp
qed

text \<open>
  C10. Two queries that agree on free-text query, sender, limit and continuation token
  make \<^verbatim>\<open>getOutlookThreads\<close> issue the same requests and return the same result,
  whatever their type and folder id.
\<close>

theorem type_and_folder_ignored:
  assumes "q a = q b" and "fromEmail a = fromEmail b" and "limit a = limit b"
    and "nextPageToken a = nextPageToken b"
  shows "getOutlookThreads graphClient db a accessToken emailAccountId
         = getOutlookThreads graphClient db b accessToken emailAccountId"
  using conversationsRequest_cong [OF assms] by (simp add: getOutlookThreads_def)

text \<open>C10 at two queries that differ in type and folder id.\<close>

theorem type_and_folder_ignored_witness:
  "type inbox_query \<noteq> type sent_folder_query
   \<and> folderId inbox_query \<noteq> folderId sent_folder_query
   \<and> getOutlookThreads healthy_client example_db inbox_query (Some ''token'') ''acct''
     = getOutlookThreads healthy_client example_db sent_folder_query (Some ''token'') ''acct''"
  using type_and_folder_ignored
     [of inbox_query sent_folder_query healthy_client example_db "Some ''token''" "''acct''"]
  by (simp add: inbox_query_def sent_folder_query_def)

section \<open>Results of the controllers\<close>

lemma getThreads_Inr:
  assumes "truthy accessToken"
    and "getThreadsWithNextPageToken gmail (listParams (GmailLabel gmail) query) = Inr page"
    and "getThreadsBatch gmail (pageThreadIds page) (the accessToken) = Inr loaded"
  shows "getThreads gmail db query accessToken emailAccountId =
           ([ThreadsList (listParams (GmailLabel gmail) query),
             ThreadsBatch (pageThreadIds page) (the accessToken)],
            Inr \<lparr>threads =
                   map the (filter isDefined
                     (map (withMessages gmail db emailAccountId
                             (findMany (executedRule db) emailAccountId (pageThreadIds page)))
                        loaded)),
                 res_nextPageToken = page_nextPageToken page\<rparr>)"
  using assms by (simp add: getThreads_def Let_def)

lemma getThreads_InrD:
  assumes "snd (getThreads gmail db query accessToken emailAccountId) = Inr r"
  shows "truthy accessToken \<and>
         (\<exists>page loaded.
            getThreadsWithNextPageToken gmail (listParams (GmailLabel gmail) query) = Inr page
            \<and> getThreadsBatch gmail (pageThreadIds page) (the accessToken) = Inr loaded
            \<and> r = \<lparr>threads =
                     map the (filter isDefined
                       (map (withMessages gmail db emailAccountId
                               (findMany (executedRule db) emailAccountId (pageThreadIds page)))
                          loaded)),
                   res_nextPageToken = page_nextPageToken page\<rparr>)"
  using assms by (auto simp: getThreads_def Let_def split: if_splits sum.splits)

lemma getOutlookThreads_Inr:
  assumes "truthy accessToken"
    and "graphClient (conversationsRequest query) = Inr response"
    and "Promise_all
           (map (withOutlookMessages graphClient db emailAccountId
                   (findMany (executedRule db) emailAccountId
                      (map obj_id (responseValue response))))
              (responseValue response)) = Inr ts"
  shows "snd (getOutlookThreads graphClient db query accessToken emailAccountId) =
           Inr \<lparr>threads = ts, res_nextPageToken = or_none (odata_nextLink response)\<rparr>"
  using assms by (simp add: getOutlookThreads_def Let_def)

lemma getOutlookThreads_InrD:
  assumes "snd (getOutlookThreads graphClient db query accessToken emailAccountId) = Inr r"
  shows "truthy accessToken \<and>
         (\<exists>response ts.
            graphClient (conversationsRequest query) = Inr response
            \<and> Promise_all
                (map (withOutlookMessages graphClient db emailAccountId
                        (findMany (executedRule db) emailAccountId
                           (map obj_id (responseValue response))))
                   (responseValue response)) = Inr ts
            \<and> r = \<lparr>threads = ts, res_nextPageToken = or_none (odata_nextLink response)\<rparr>)"
  using assms by (auto simp: getOutlookThreads_def Let_def split: if_splits sum.splits)

text \<open>The two example runs, evaluated.\<close>

lemma example_getThreads:
  "getThreads example_gmail example_db inbox_query (Some ''token'') ''acct'' =
     ([ThreadsList \<lparr>arg_q = None, arg_labelIds = Some [''INBOX''], arg_maxResults = 2,
                    arg_pageToken = Some ''cursor-1''\<rparr>,
       ThreadsBatch [''A'', ''B''] ''token''],
      Inr \<lparr>threads =
             [\<lparr>thread_id = ''A'',
               thread_messages =
                 [\<lparr>message_id = ''m1'', message_snippet = ''hello'',
                   message_headers = \<lparr>subject = [], sender = [], date = []\<rparr>\<rparr>],
               thread_snippet = ''hello'',
               thread_plan = Some (select_plan example_rule),
               thread_category = None\<rparr>],
           res_nextPageToken = Some ''cursor-2''\<rparr>)"
  by (simp add: getThreads_def Let_def truthy_def example_gmail_def example_db_def
      inbox_query_def listParams_def getQuery_def getLabelIds_def example_labels_def
      or_number_def or_none_def pageThreadIds_def example_page_def isDefined_def
      loadMessages_def List.map_filter_def example_fetch_def example_thread_def
      withMessages_def findMany_def example_rule_def select_plan_def getCategory_def
      example_parse_def or_string_def)

lemma example_getOutlookThreads:
  "getOutlookThreads healthy_client example_db inbox_query (Some ''token'') ''acct'' =
     ([GraphGet \<lparr>req_path = ''/me/conversations'', req_top = Some 2,
                 req_headers = [(''skipToken'', ''cursor-1'')], req_filter = None\<rparr>,
       GraphGet \<lparr>req_path = ''/me/conversations/A/threads'', req_top = None,
                 req_headers = [], req_filter = None\<rparr>,
       GraphGet \<lparr>req_path = ''/me/conversations/B/threads'', req_top = None,
                 req_headers = [], req_filter = None\<rparr>],
      Inr \<lparr>threads =
             [\<lparr>thread_id = ''A'',
               thread_messages = [\<lparr>obj_id = ''m1'', bodyPreview = Some ''first''\<rparr>,
                                  \<lparr>obj_id = ''m2'', bodyPreview = Some ''last''\<rparr>],
               thread_snippet = ''first'',
               thread_plan = Some (select_plan example_rule),
               thread_category = None\<rparr>,
              \<lparr>thread_id = ''B'', thread_messages = [], thread_snippet = [],
               thread_plan = None, thread_category = None\<rparr>],
           res_nextPageToken = Some ''https://graph/next''\<rparr>)"
  by (simp add: getOutlookThreads_def Let_def truthy_def healthy_client_def example_db_def
      inbox_query_def conversationsRequest_def getFilter_def top_def api_def header_def
      or_number_def or_none_def responseValue_def example_conversations_def
      example_messages_def messagesRequest_def withOutlookMessages_def findMany_def
      example_rule_def select_plan_def getCategory_def or_string_def)

section \<open>Continuation tokens\<close>

text \<open>
  C6. The continuation token of the query, when one is given (present and not empty),
  reaches the provider unchanged: as the page token of the Gmail-style list request, and
  as the \<open>skipToken\<close> header of the Graph-style request; without one, no token is sent.
  The token of a response of \<^verbatim>\<open>getThreads\<close> is the token of the provider's page as it
  is; the token of a response of \<^verbatim>\<open>getOutlookThreads\<close> is the provider's next link,
  and none when the provider gave none (absent or empty).
\<close>

theorem continuation_token_verbatim:
  assumes "truthy accessToken"
  shows "(\<exists>params rest.
            fst (getThreads gmail db query accessToken emailAccountId) = ThreadsList params # rest
            \<and> arg_pageToken params =
                (if truthy (nextPageToken query) then nextPageToken query else None))
       \<and> (\<exists>request rest.
            fst (getOutlookThreads graphClient db query accessToken emailAccountId)
              = GraphGet request # rest
            \<and> req_headers request =
                (if truthy (nextPageToken query)
                 then [(''skipToken'', the (nextPageToken query))] else []))
       \<and> (\<forall>r. snd (getThreads gmail db query accessToken emailAccountId) = Inr r \<longrightarrow>
            (\<exists>page. getThreadsWithNextPageToken gmail (listParams (GmailLabel gmail) query)
                       = Inr page
                    \<and> res_nextPageToken r = page_nextPageToken page))
       \<and> (\<forall>r. snd (getOutlookThreads graphClient db query accessToken emailAccountId) = Inr r
            \<longrightarrow>
            (\<exists>response. graphClient (conversationsRequest query) = Inr response
                    \<and> res_nextPageToken r =
                        (if truthy (odata_nextLink response) then odata_nextLink response
                         else None)))"
proof -
  have "arg_pageToken (listParams (GmailLabel gmail) query) =
          (if truthy (nextPageToken query) then nextPageToken query else None)"
    by (simp add: listParams_def or_none_def)
  then have a: "\<exists>params rest.
            fst (getThreads gmail db query accessToken emailAccountId) = ThreadsList params # rest
            \<and> arg_pageToken params =
                (if truthy (nextPageToken query) then nextPageToken query else None)"
    using getThreads_first_call [OF assms] by blast
  have "req_headers (conversationsRequest query) =
          (if truthy (nextPageToken query)
           then [(''skipToken'', the (nextPageToken query))] else [])"
    by (simp add: conversationsRequest_def Let_def top_def api_def header_def filter_by_def)
  then have b: "\<exists>request rest.
            fst (getOutlookThreads graphClient db query accessToken emailAccountId)
              = GraphGet request # rest
            \<and> req_headers request =
                (if truthy (nextPageToken query)
                 then [(''skipToken'', the (nextPageToken query))] else [])"
    using getOutlookThreads_first_call [OF assms] by blast
  have c: "\<forall>r. snd (getThreads gmail db query accessToken emailAccountId) = Inr r \<longrightarrow>
            (\<exists>page. getThreadsWithNextPageToken gmail (listParams (GmailLabel gmail) query)
                       = Inr page
                    \<and> res_nextPageToken r = page_nextPageToken page)"
    using getThreads_InrD by fastforce
  have d: "\<forall>r. snd (getOutlookThreads graphClient db query accessToken emailAccountId) = Inr r
            \<longrightarrow>
            (\<exists>response. graphClient (conversationsRequest query) = Inr response
                    \<and> res_nextPageToken r =
                        (if truthy (odata_nextLink response) then odata_nextLink response
                         else None))"
    using getOutlookThreads_InrD by (fastforce simp: or_none_def)
  from a b c d show ?thesis by blast
qed

text \<open>C6 at the example page: token \<open>cursor-1\<close> in, the provider's cursors out.\<close>

theorem continuation_token_verbatim_witness:
  "(\<exists>params rest.
      fst (getThreads example_gmail example_db inbox_query (Some ''token'') ''acct'')
        = ThreadsList params # rest
      \<and> arg_pageToken params = Some ''cursor-1'')
   \<and> (\<exists>request rest.
      fst (getOutlookThreads healthy_client example_db inbox_query (Some ''token'') ''acct'')
        = GraphGet request # rest
      \<and> req_headers request = [(''skipToken'', ''cursor-1'')])
   \<and> (\<exists>r page.
      snd (getThreads example_gmail example_db inbox_query (Some ''token'') ''acct'') = Inr r
      \<and> getThreadsWithNextPageToken example_gmail
            (listParams (GmailLabel example_gmail) inbox_query) = Inr page
      \<and> res_nextPageToken r = page_nextPageToken page
      \<and> page_nextPageToken page = Some ''cursor-2'')
   \<and> (\<exists>r response.
      snd (getOutlookThreads healthy_client example_db inbox_query (Some ''token'') ''acct'')
        = Inr r
      \<and> healthy_client (conversationsRequest inbox_query) = Inr response
      \<and> res_nextPageToken r = odata_nextLink response
      \<and> odata_nextLink response = Some ''https://graph/next'')"
proof -
  note t = continuation_token_verbatim
     [of "Some ''token''" example_gmail example_db inbox_query "''acct''" healthy_client]
  have tok: "truthy (Some ''token'')" by (simp add: truthy_def)
  have np: "nextPageToken inbox_query = Some ''cursor-1''" by (simp add: inbox_query_def)
  from t [OF tok] have a: "\<exists>params rest.
      fst (getThreads example_gmail example_db inbox_query (Some ''token'') ''acct'')
        = ThreadsList params # rest
      \<and> arg_pageToken params = Some ''cursor-1''"
    by (simp add: np truthy_def)
  from t [OF tok] have b: "\<exists>request rest.
      fst (getOutlookThreads healthy_client example_db inbox_query (Some ''token'') ''acct'')
        = GraphGet request # rest
      \<and> req_headers request = [(''skipToken'', ''cursor-1'')]"
    by (simp add: np truthy_def)
  have gm: "getThreadsWithNextPageToken example_gmail
              (listParams (GmailLabel example_gmail) inbox_query) = Inr example_page"
    by (simp add: example_gmail_def)
  have gr: "healthy_client (conversationsRequest inbox_query) = Inr example_conversations"
    by (simp add: healthy_client_def conversationsRequest_def Let_def top_def api_def
          header_def filter_by_def)
  from t [OF tok] have c: "\<exists>r page.
      snd (getThreads example_gmail example_db inbox_query (Some ''token'') ''acct'') = Inr r
      \<and> getThreadsWithNextPageToken example_gmail
            (listParams (GmailLabel example_gmail) inbox_query) = Inr page
      \<and> res_nextPageToken r = page_nextPageToken page
      \<and> page_nextPageToken page = Some ''cursor-2''"
    by (simp add: example_getThreads gm example_page_def)
  from t [OF tok] have d: "\<exists>r response.
      snd (getOutlookThreads healthy_client example_db inbox_query (Some ''token'') ''acct'')
        = Inr r
      \<and> healthy_client (conversationsRequest inbox_query) = Inr response
      \<and> res_nextPageToken r = odata_nextLink response
      \<and> odata_nextLink response = Some ''https://graph/next''"
    by (simp add: example_getOutlookThreads gr example_conversations_def)
  from a b c d show ?thesis by blast
qed

section \<open>Missing access token\<close>

text \<open>
  C8 as stated fails: when the account lookup finds no access token, the route answers
  with the error payload and status 200.
\<close>

theorem missing_token_status_counterexample:
  "getGraphClientAndAccessTokenForEmail tokenless_env (auth_emailAccountId example_request)
     = Inr (healthy_client, None)
   \<and> snd (GET tokenless_env example_db example_request)
     = Inr \<lparr>body = ErrorBody ''Account not found'', status = 200\<rparr>
   \<and> \<not> non2xx (status \<lparr>body = ErrorBody ''Account not found'', status = 200\<rparr>)"
  by (simp add: GET_def tokenless_env_def truthy_def NextResponse_json_def non2xx_def)

text \<open>
  C8, amended. Without an access token both controllers fail with
  \<open>Missing access token\<close> before any provider call; the route, when the account lookup
  finds no token, makes no provider call either and, when the query parses, answers with
  the payload \<open>Account not found\<close> under the default status 200.
\<close>

theorem missing_token:
  assumes "\<not> truthy accessToken"
  shows "getThreads gmail db query accessToken emailAccountId
           = ([], Inl (SafeError ''Missing access token''))
       \<and> getOutlookThreads graphClient db query accessToken emailAccountId
           = ([], Inl (SafeError ''Missing access token''))
       \<and> (getGraphClientAndAccessTokenForEmail env (auth_emailAccountId request)
             = Inr (graphClient, accessToken) \<longrightarrow>
           fst (GET env db request) = []
           \<and> (\<forall>parsed. threadsQuery_parse env (rawQuery request) = Inr parsed \<longrightarrow>
                snd (GET env db request)
                  = Inr \<lparr>body = ErrorBody ''Account not found'', status = 200\<rparr>))"
  using assms
  by (auto simp: getThreads_def getOutlookThreads_def GET_def Let_def NextResponse_json_def
      split: sum.splits)

text \<open>C8, amended, at the route without a token.\<close>

theorem missing_token_witness:
  "getThreads example_gmail example_db inbox_query None ''acct''
     = ([], Inl (SafeError ''Missing access token''))
   \<and> getOutlookThreads healthy_client example_db inbox_query None ''acct''
     = ([], Inl (SafeError ''Missing access token''))
   \<and> getGraphClientAndAccessTokenForEmail tokenless_env (auth_emailAccountId example_request)
     = Inr (healthy_client, None)
   \<and> threadsQuery_parse tokenless_env (rawQuery example_request) = Inr inbox_query
   \<and> GET tokenless_env example_db example_request
     = ([], Inr \<lparr>body = ErrorBody ''Account not found'', status = 200\<rparr>)"
proof -
  have e: "getGraphClientAndAccessTokenForEmail tokenless_env (auth_emailAccountId example_request)
     = Inr (healthy_client, None)"
    by (simp add: tokenless_env_def)
  have p: "threadsQuery_parse tokenless_env (rawQuery example_request) = Inr inbox_query"
    by (simp add: tokenless_env_def)
  note t = missing_token [of None example_gmail example_db inbox_query "''acct''"
      healthy_client tokenless_env example_request]
  from t e p show ?thesis
    by (simp add: truthy_def prod_eq_iff)
qed

section \<open>Lists of threads\<close>

lemma Promise_all_map_Inr: "Promise_all (map Inr xs) = Inr xs"
  by (induction xs) simp_all

lemma Promise_all_InrD: "Promise_all ps = Inr xs \<Longrightarrow> ps = map Inr xs"
proof (induction ps arbitrary: xs)
  case Nil
  then show ?case by simp
next
  case (Cons p ps)
  show ?case
  proof (cases p)
    case (Inl e)
    with Cons.prems show ?thesis by simp
  next
    case (Inr x)
    with Cons.prems obtain ys where ys: "Promise_all ps = Inr ys" and xs: "xs = x # ys"
      by (auto split: sum.splits)
    from Cons.IH [OF ys] Inr xs show ?thesis by simp
  qed
qed

lemma Promise_all_Inr: "Promise_all ps = Inr xs \<longleftrightarrow> ps = map Inr xs"
  using Promise_all_InrD Promise_all_map_Inr by blast

lemma Promise_all_isl: "isl (Promise_all ps) \<longleftrightarrow> (\<exists>p \<in> set ps. isl p)"
proof (induction ps)
  case Nil
  then show ?case by simp
next
  case (Cons p ps)
  then show ?case by (cases p) (auto split: sum.splits)
qed

lemma withMessages_ids:
  "map thread_id (map the (filter isDefined (map (withMessages gmail db acct plans) loaded)))
   = map (the \<circ> t_id) (filter (\<lambda>t. truthy (t_id t)) loaded)"
  by (induction loaded) (simp_all add: withMessages_def isDefined_def Let_def)

lemma withMessages_snippets:
  "map thread_snippet (map the (filter isDefined (map (withMessages gmail db acct plans) loaded)))
   = map (\<lambda>t. decodeSnippet gmail (t_snippet t)) (filter (\<lambda>t. truthy (t_id t)) loaded)"
  by (induction loaded) (simp_all add: withMessages_def isDefined_def Let_def)

lemma pageThreadIds_member:
  assumes "i \<in> set (pageThreadIds page)"
  shows "\<exists>ts s. page_threads page = Some ts \<and> s \<in> set ts \<and> summary_id s = Some i"
proof (cases "page_threads page")
  case None
  with assms show ?thesis by (simp add: pageThreadIds_def)
next
  case (Some ts)
  with assms obtain s where "s \<in> set ts" and "summary_id s = Some i"
    by (auto simp: pageThreadIds_def isDefined_def)
  with Some show ?thesis by blast
qed

lemma withOutlookMessages_isl:
  "isl (withOutlookMessages graphClient db acct plans conv)
   \<longleftrightarrow> isl (graphClient (messagesRequest (obj_id conv)))"
  by (simp add: withOutlookMessages_def Let_def split: sum.splits)

lemma withOutlookMessages_Inr:
  assumes "withOutlookMessages graphClient db acct plans conv = Inr th"
  shows "thread_id th = obj_id conv
       \<and> (\<exists>messagesRes. graphClient (messagesRequest (obj_id conv)) = Inr messagesRes
            \<and> thread_messages th = responseValue messagesRes)
       \<and> thread_snippet th =
           (case thread_messages th of
              [] \<Rightarrow> []
            | m # ms \<Rightarrow> (case bodyPreview m of None \<Rightarrow> [] | Some s \<Rightarrow> s))"
  using assms
  by (auto simp: withOutlookMessages_def Let_def or_string_def truthy_def
      split: sum.splits list.splits option.splits)

lemma outlook_thread_ids:
  "Promise_all (map (withOutlookMessages graphClient db acct plans) convs) = Inr ts
   \<Longrightarrow> map thread_id ts = map obj_id convs"
proof (induction convs arbitrary: ts)
  case Nil
  then show ?case by simp
next
  case (Cons c cs)
  then show ?case
    by (auto simp: Promise_all_Inr map_eq_Cons_conv dest: withOutlookMessages_Inr)
qed

lemma outlook_thread_member:
  assumes "Promise_all (map (withOutlookMessages graphClient db acct plans) convs) = Inr ts"
    and "th \<in> set ts"
  shows "\<exists>conv \<in> set convs. withOutlookMessages graphClient db acct plans conv = Inr th"
proof -
  from assms(1) have "map (withOutlookMessages graphClient db acct plans) convs = map Inr ts"
    by (simp add: Promise_all_Inr)
  then have "Inr th \<in> set (map (withOutlookMessages graphClient db acct plans) convs)"
    using assms(2) by simp
  then show ?thesis by auto
qed

section \<open>The page with the batch loader of the spec\<close>

text \<open>
  The entries of the loader before it hands them over: the identifiers whose fetch
  succeeded, each entry keyed by its identifier.
\<close>

lemma keyed_entries_ids:
  "map (the \<circ> t_id)
     (filter (\<lambda>t. truthy (t_id t))
        (List.map_filter
           (\<lambda>i. case fetch i tok of Inl e \<Rightarrow> None | Inr t \<Rightarrow> Some (t\<lparr>t_id := Some i\<rparr>))
           ids))
   = filter (\<lambda>i. i \<noteq> [] \<and> \<not> isl (fetch i tok)) ids"
  by (induction ids) (auto simp: map_filter_simps truthy_def split: sum.splits)

lemma keyed_entries_keys:
  "set (map t_id
     (List.map_filter
        (\<lambda>i. case fetch i tok of Inl e \<Rightarrow> None | Inr t \<Rightarrow> Some (t\<lparr>t_id := Some i\<rparr>))
        ids))
   \<subseteq> Some ` set ids"
  by (induction ids) (auto simp: map_filter_simps split: sum.splits)

text \<open>A rearrangement of the entries keeps the identifiers, counted with repetitions.\<close>

lemma rearranged_ids:
  assumes "\<And>entries. mset (arrange entries) = mset entries"
  shows "mset (map (the \<circ> t_id) (filter (\<lambda>t. truthy (t_id t)) (arrange entries)))
         = mset (map (the \<circ> t_id) (filter (\<lambda>t. truthy (t_id t)) entries))"
proof -
  have "mset (map (the \<circ> t_id) (filter (\<lambda>t. truthy (t_id t)) (arrange entries)))
        = image_mset (the \<circ> t_id) (filter_mset (\<lambda>t. truthy (t_id t)) (mset (arrange entries)))"
    by simp
  also have "\<dots> = image_mset (the \<circ> t_id) (filter_mset (\<lambda>t. truthy (t_id t)) (mset entries))"
    by (simp only: assms)
  also have "\<dots> = mset (map (the \<circ> t_id) (filter (\<lambda>t. truthy (t_id t)) entries))"
    by simp
  finally show ?thesis .
qed

text \<open>
  With the loader of the spec in place of \<^verbatim>\<open>getThreadsBatch\<close>, \<^verbatim>\<open>getThreads\<close>
  returns a page, and its threads are the loader's entries that carry an identifier, in the
  order the loader hands them over.
\<close>

lemma getThreads_spec_loader:
  assumes "truthy accessToken"
    and "getThreadsWithNextPageToken gmail (listParams (GmailLabel gmail) query) = Inr page"
  shows "\<exists>r. snd (getThreads (gmail\<lparr>getThreadsBatch := loadMessages arrange fetch\<rparr>) db query
                   accessToken emailAccountId) = Inr r
           \<and> map thread_id (threads r)
             = map (the \<circ> t_id)
                 (filter (\<lambda>t. truthy (t_id t))
                    (arrange
                       (List.map_filter
                          (\<lambda>i. case fetch i (the accessToken) of
                                  Inl e \<Rightarrow> None
                                | Inr t \<Rightarrow> Some (t\<lparr>t_id := Some i\<rparr>))
                          (pageThreadIds page))))"
proof -
  let ?gmail = "gmail\<lparr>getThreadsBatch := loadMessages arrange fetch\<rparr>"
  let ?loaded = "arrange
                   (List.map_filter
                      (\<lambda>i. case fetch i (the accessToken) of
                              Inl e \<Rightarrow> None
                            | Inr t \<Rightarrow> Some (t\<lparr>t_id := Some i\<rparr>))
                      (pageThreadIds page))"
  have "getThreadsWithNextPageToken ?gmail (listParams (GmailLabel ?gmail) query) = Inr page"
    using assms(2) by simp
  moreover have "getThreadsBatch ?gmail (pageThreadIds page) (the accessToken) = Inr ?loaded"
    by (simp add: loadMessages_def)
  ultimately have
    "snd (getThreads ?gmail db query accessToken emailAccountId) =
       Inr \<lparr>threads =
              map the (filter isDefined
                (map (withMessages ?gmail db emailAccountId
                        (findMany (executedRule db) emailAccountId (pageThreadIds page)))
                   ?loaded)),
            res_nextPageToken = page_nextPageToken page\<rparr>"
    using getThreads_Inr [OF assms(1), of ?gmail query page ?loaded db emailAccountId]
    by (simp only: snd_conv)
  moreover have
    "map thread_id
       (threads \<lparr>threads =
              map the (filter isDefined
                (map (withMessages ?gmail db emailAccountId
                        (findMany (executedRule db) emailAccountId (pageThreadIds page)))
                   ?loaded)),
            res_nextPageToken = page_nextPageToken page\<rparr>)
     = map (the \<circ> t_id) (filter (\<lambda>t. truthy (t_id t)) ?loaded)"
    by (simp only: ThreadsResponse.select_convs withMessages_ids)
  ultimately show ?thesis by blast
qed

lemma getThreads_spec_loaderD:
  assumes "snd (getThreads (gmail\<lparr>getThreadsBatch := loadMessages arrange fetch\<rparr>) db query
                  accessToken emailAccountId) = Inr r"
  shows "truthy accessToken \<and>
         (\<exists>page. getThreadsWithNextPageToken gmail (listParams (GmailLabel gmail) query) = Inr page
            \<and> map thread_id (threads r)
              = map (the \<circ> t_id)
                 (filter (\<lambda>t. truthy (t_id t))
                    (arrange
                       (List.map_filter
                          (\<lambda>i. case fetch i (the accessToken) of
                                  Inl e \<Rightarrow> None
                                | Inr t \<Rightarrow> Some (t\<lparr>t_id := Some i\<rparr>))
                          (pageThreadIds page)))))"
proof -
  let ?gmail = "gmail\<lparr>getThreadsBatch := loadMessages arrange fetch\<rparr>"
  from getThreads_InrD [OF assms] obtain page where
    tok: "truthy accessToken"
    and p: "getThreadsWithNextPageToken ?gmail (listParams (GmailLabel ?gmail) query) = Inr page"
    by blast
  from p have p': "getThreadsWithNextPageToken gmail (listParams (GmailLabel gmail) query) = Inr page"
    by simp
  from getThreads_spec_loader [OF tok p', of arrange fetch db emailAccountId] assms
  show ?thesis using tok p' by auto
qed

text \<open>The threads of the page are the threads whose fetch succeeded, in whatever order.\<close>

lemma getThreads_spec_loader_mset:
  assumes "truthy accessToken"
    and "getThreadsWithNextPageToken gmail (listParams (GmailLabel gmail) query) = Inr page"
    and "\<And>entries. mset (arrange entries) = mset entries"
  shows "\<exists>r. snd (getThreads (gmail\<lparr>getThreadsBatch := loadMessages arrange fetch\<rparr>) db query
                   accessToken emailAccountId) = Inr r
           \<and> mset (map thread_id (threads r))
             = mset (filter (\<lambda>i. i \<noteq> [] \<and> \<not> isl (fetch i (the accessToken)))
                       (pageThreadIds page))"
proof -
  from getThreads_spec_loader [OF assms(1,2), of arrange fetch db emailAccountId]
  obtain r where
    r: "snd (getThreads (gmail\<lparr>getThreadsBatch := loadMessages arrange fetch\<rparr>) db query
              accessToken emailAccountId) = Inr r"
    and ids: "map thread_id (threads r)
             = map (the \<circ> t_id)
                 (filter (\<lambda>t. truthy (t_id t))
                    (arrange
                       (List.map_filter
                          (\<lambda>i. case fetch i (the accessToken) of
                                  Inl e \<Rightarrow> None
                                | Inr t \<Rightarrow> Some (t\<lparr>t_id := Some i\<rparr>))
                          (pageThreadIds page))))"
    by blast
  have "mset (map thread_id (threads r))
        = mset (filter (\<lambda>i. i \<noteq> [] \<and> \<not> isl (fetch i (the accessToken))) (pageThreadIds page))"
    unfolding ids by (simp only: rearranged_ids [OF assms(3)] keyed_entries_ids)
  with r show ?thesis by blast
qed

text \<open>A loader that keeps the order of the identifiers gives them in that order.\<close>

lemma getThreads_spec_loader_ordered:
  assumes "truthy accessToken"
    and "getThreadsWithNextPageToken gmail (listParams (GmailLabel gmail) query) = Inr page"
  shows "\<exists>r. snd (getThreads (gmail\<lparr>getThreadsBatch := loadMessages (\<lambda>entries. entries) fetch\<rparr>)
                   db query accessToken emailAccountId) = Inr r
           \<and> map thread_id (threads r)
             = filter (\<lambda>i. i \<noteq> [] \<and> \<not> isl (fetch i (the accessToken))) (pageThreadIds page)"
  using getThreads_spec_loader [OF assms, of "\<lambda>entries. entries" fetch db emailAccountId]
  by (simp only: keyed_entries_ids)

section \<open>Failures of a single thread\<close>

text \<open>
  C1 as stated fails for \<^verbatim>\<open>getOutlookThreads\<close>: the provider lists the conversations
  \<open>A\<close> and \<open>B\<close>, the messages of \<open>A\<close> are fetched, the fetch for \<open>B\<close> is rejected,
  and the whole result is that rejection.
\<close>

theorem outlook_fetch_failure_counterexample:
  "failing_client (conversationsRequest inbox_query) = Inr example_conversations
   \<and> map obj_id (responseValue example_conversations) = [''A'', ''B'']
   \<and> failing_client (messagesRequest ''A'') = Inr example_messages
   \<and> failing_client (messagesRequest ''B'') = Inl (Rejected ''request failed'')
   \<and> snd (getOutlookThreads failing_client example_db inbox_query (Some ''token'') ''acct'')
     = Inl (Rejected ''request failed'')"
  by (simp add: getOutlookThreads_def Let_def truthy_def failing_client_def example_db_def
      inbox_query_def conversationsRequest_def getFilter_def top_def api_def header_def
      or_number_def or_none_def responseValue_def example_conversations_def
      example_messages_def messagesRequest_def withOutlookMessages_def findMany_def
      example_rule_def select_plan_def getCategory_def or_string_def)

text \<open>
  C1, amended. In \<^verbatim>\<open>getThreads\<close>, with the batch loader of the spec and whatever
  the order it hands its entries over in, a thread whose fetch fails is dropped and the
  page with the remaining threads is still returned (in the order of the identifiers when
  the loader keeps that order). In \<^verbatim>\<open>getOutlookThreads\<close> a failed fetch for any
  conversation of the page makes the whole result an error; when every fetch succeeds the
  page holds every conversation.
\<close>

theorem per_thread_failures:
  assumes "truthy accessToken"
    and "\<And>entries. mset (arrange entries) = mset entries"
  shows "(\<forall>page. getThreadsWithNextPageToken gmail (listParams (GmailLabel gmail) query)
                   = Inr page \<longrightarrow>
            (\<exists>r. snd (getThreads (gmail\<lparr>getThreadsBatch := loadMessages arrange fetch\<rparr>) db
                        query accessToken emailAccountId) = Inr r
                \<and> mset (map thread_id (threads r))
                  = mset (filter (\<lambda>i. i \<noteq> [] \<and> \<not> isl (fetch i (the accessToken)))
                            (pageThreadIds page))))
       \<and> (\<forall>page. getThreadsWithNextPageToken gmail (listParams (GmailLabel gmail) query)
                   = Inr page \<longrightarrow>
            (\<exists>r. snd (getThreads
                        (gmail\<lparr>getThreadsBatch := loadMessages (\<lambda>entries. entries) fetch\<rparr>) db
                        query accessToken emailAccountId) = Inr r
                \<and> map thread_id (threads r)
                  = filter (\<lambda>i. i \<noteq> [] \<and> \<not> isl (fetch i (the accessToken)))
                      (pageThreadIds page)))
       \<and> (\<forall>response. graphClient (conversationsRequest query) = Inr response \<longrightarrow>
            ((\<exists>conv \<in> set (responseValue response).
                 isl (graphClient (messagesRequest (obj_id conv)))) \<longrightarrow>
               isl (snd (getOutlookThreads graphClient db query accessToken emailAccountId)))
            \<and> ((\<forall>conv \<in> set (responseValue response).
                   \<not> isl (graphClient (messagesRequest (obj_id conv)))) \<longrightarrow>
               (\<exists>r. snd (getOutlookThreads graphClient db query accessToken emailAccountId)
                       = Inr r
                   \<and> map thread_id (threads r) = map obj_id (responseValue response))))"
proof (intro conjI allI impI)
  fix page
  assume "getThreadsWithNextPageToken gmail (listParams (GmailLabel gmail) query) = Inr page"
  from getThreads_spec_loader_mset [OF assms(1) this assms(2)]
  show "\<exists>r. snd (getThreads (gmail\<lparr>getThreadsBatch := loadMessages arrange fetch\<rparr>) db
                        query accessToken emailAccountId) = Inr r
                \<and> mset (map thread_id (threads r))
                  = mset (filter (\<lambda>i. i \<noteq> [] \<and> \<not> isl (fetch i (the accessToken)))
                            (pageThreadIds page))" .
next
  fix page
  assume "getThreadsWithNextPageToken gmail (listParams (GmailLabel gmail) query) = Inr page"
  from getThreads_spec_loader_ordered [OF assms(1) this]
  show "\<exists>r. snd (getThreads
                        (gmail\<lparr>getThreadsBatch := loadMessages (\<lambda>entries. entries) fetch\<rparr>) db
                        query accessToken emailAccountId) = Inr r
                \<and> map thread_id (threads r)
                  = filter (\<lambda>i. i \<noteq> [] \<and> \<not> isl (fetch i (the accessToken)))
                      (pageThreadIds page)" .
next
  fix response
  assume resp: "graphClient (conversationsRequest query) = Inr response"
    and bad: "\<exists>conv \<in> set (responseValue response).
                 isl (graphClient (messagesRequest (obj_id conv)))"
  let ?ps = "map (withOutlookMessages graphClient db emailAccountId
                   (findMany (executedRule db) emailAccountId
                      (map obj_id (responseValue response))))
              (responseValue response)"
  from bad have "isl (Promise_all ?ps)"
    by (auto simp: Promise_all_isl withOutlookMessages_isl)
  then show "isl (snd (getOutlookThreads graphClient db query accessToken emailAccountId))"
    using assms(1) resp
    by (auto simp: getOutlookThreads_def Let_def split: sum.splits)
next
  fix response
  assume resp: "graphClient (conversationsRequest query) = Inr response"
    and good: "\<forall>conv \<in> set (responseValue response).
                   \<not> isl (graphClient (messagesRequest (obj_id conv)))"
  let ?ps = "map (withOutlookMessages graphClient db emailAccountId
                   (findMany (executedRule db) emailAccountId
                      (map obj_id (responseValue response))))
              (responseValue response)"
  from good have "\<not> isl (Promise_all ?ps)"
    by (auto simp: Promise_all_isl withOutlookMessages_isl)
  then obtain ts where ts: "Promise_all ?ps = Inr ts"
    by (cases "Promise_all ?ps") auto
  from getOutlookThreads_Inr [OF assms(1) resp ts] outlook_thread_ids [OF ts]
  show "\<exists>r. snd (getOutlookThreads graphClient db query accessToken emailAccountId) = Inr r
                   \<and> map thread_id (threads r) = map obj_id (responseValue response)"
    by simp
qed

text \<open>Facts about the example runs.\<close>

lemma example_list_call:
  "getThreadsWithNextPageToken example_gmail (listParams (GmailLabel example_gmail) inbox_query)
     = Inr example_page"
  by (simp add: example_gmail_def)

lemma example_pageThreadIds: "pageThreadIds example_page = [''A'', ''B'']"
  by (simp add: pageThreadIds_def example_page_def isDefined_def)

lemma token_truthy: "truthy (Some ''token'')"
  by (simp add: truthy_def)

lemma healthy_conversations:
  "healthy_client (conversationsRequest inbox_query) = Inr example_conversations"
  by (simp add: healthy_client_def conversationsRequest_def Let_def top_def api_def
      header_def filter_by_def)

lemma failing_conversations:
  "failing_client (conversationsRequest inbox_query) = Inr example_conversations"
  by (simp add: failing_client_def conversationsRequest_def Let_def top_def api_def
      header_def filter_by_def)

lemma example_conversation_ids:
  "responseValue example_conversations
     = [\<lparr>obj_id = ''A'', bodyPreview = None\<rparr>, \<lparr>obj_id = ''B'', bodyPreview = None\<rparr>]"
  by (simp add: responseValue_def example_conversations_def)

text \<open>
  C1, amended, at the example page: \<open>B\<close> is dropped by \<^verbatim>\<open>getThreads\<close>, for a
  loader that reverses its entries and for one that keeps their order; the client that
  rejects \<open>B\<close> fails \<^verbatim>\<open>getOutlookThreads\<close>, the one that answers returns both.
\<close>

theorem per_thread_failures_witness:
  "(\<exists>r. snd (getThreads (example_gmail\<lparr>getThreadsBatch := loadMessages rev example_fetch\<rparr>)
               example_db inbox_query (Some ''token'') ''acct'') = Inr r
        \<and> mset (map thread_id (threads r)) = mset [''A''])
   \<and> (\<exists>r. snd (getThreads
                 (example_gmail\<lparr>getThreadsBatch := loadMessages (\<lambda>entries. entries) example_fetch\<rparr>)
                 example_db inbox_query (Some ''token'') ''acct'') = Inr r
        \<and> map thread_id (threads r) = [''A''])
   \<and> isl (snd (getOutlookThreads failing_client example_db inbox_query (Some ''token'') ''acct''))
   \<and> (\<exists>r. snd (getOutlookThreads healthy_client example_db inbox_query (Some ''token'') ''acct'')
            = Inr r
        \<and> map thread_id (threads r) = [''A'', ''B''])"
proof -
  have rearr: "mset (rev entries) = mset entries" for entries :: "ThreadWithPayloadMessages list"
    by simp
  note t = per_thread_failures
    [where accessToken = "Some ''token''" and gmail = example_gmail and query = inbox_query
       and fetch = example_fetch and db = example_db and emailAccountId = "''acct''"
       and arrange = rev,
     OF token_truthy rearr]
  note gm = t [where graphClient = failing_client, THEN conjunct1, rule_format,
               OF example_list_call]
  note gmo = t [where graphClient = failing_client, THEN conjunct2, THEN conjunct1,
                rule_format, OF example_list_call]
  note bad = t [where graphClient = failing_client, THEN conjunct2, THEN conjunct2,
                rule_format, OF failing_conversations, THEN conjunct1, rule_format]
  note good = t [where graphClient = healthy_client, THEN conjunct2, THEN conjunct2,
                 rule_format, OF healthy_conversations, THEN conjunct2, rule_format]
  have a: "\<exists>r. snd (getThreads (example_gmail\<lparr>getThreadsBatch := loadMessages rev example_fetch\<rparr>)
               example_db inbox_query (Some ''token'') ''acct'') = Inr r
        \<and> mset (map thread_id (threads r)) = mset [''A'']"
    using gm by (simp add: example_pageThreadIds example_fetch_def)
  have a': "\<exists>r. snd (getThreads
                 (example_gmail\<lparr>getThreadsBatch := loadMessages (\<lambda>entries. entries) example_fetch\<rparr>)
                 example_db inbox_query (Some ''token'') ''acct'') = Inr r
        \<and> map thread_id (threads r) = [''A'']"
    using gmo by (simp add: example_pageThreadIds example_fetch_def)
  have b: "isl (snd (getOutlookThreads failing_client example_db inbox_query (Some ''token'')
                      ''acct''))"
    by (rule bad)
       (simp add: example_conversation_ids failing_client_def messagesRequest_def api_def)
  have c: "\<exists>r. snd (getOutlookThreads healthy_client example_db inbox_query (Some ''token'')
                     ''acct'') = Inr r
        \<and> map thread_id (threads r) = [''A'', ''B'']"
    using good
    by (simp add: example_conversation_ids healthy_client_def messagesRequest_def api_def)
  from a a' b c show ?thesis by blast
qed

section \<open>Membership and order of a page\<close>

text \<open>
  C4. Whatever the executed-rule table and the category store hold, every thread of a
  page returned by \<^verbatim>\<open>getThreads\<close> (with the batch loader of the spec, whatever the
  order it hands its entries over in) carries an identifier that the provider's list call
  returned for that page, and the identifiers of the page are the same for any other
  contents of the stores.
\<close>

theorem join_soundness:
  assumes "snd (getThreads (gmail\<lparr>getThreadsBatch := loadMessages arrange fetch\<rparr>) db query
                  accessToken emailAccountId) = Inr r"
    and "\<And>entries. mset (arrange entries) = mset entries"
  shows "\<exists>page.
           getThreadsWithNextPageToken gmail (listParams (GmailLabel gmail) query) = Inr page
           \<and> (\<forall>th \<in> set (threads r).
                \<exists>ts s. page_threads page = Some ts \<and> s \<in> set ts
                       \<and> summary_id s = Some (thread_id th))
           \<and> (\<forall>db'. \<exists>r'.
                snd (getThreads (gmail\<lparr>getThreadsBatch := loadMessages arrange fetch\<rparr>) db'
                       query accessToken emailAccountId) = Inr r'
                \<and> map thread_id (threads r') = map thread_id (threads r))"
proof -
  let ?entries = "List.map_filter
                    (\<lambda>i. case fetch i (the accessToken) of
                            Inl e \<Rightarrow> None
                          | Inr t \<Rightarrow> Some (t\<lparr>t_id := Some i\<rparr>))"
  from getThreads_spec_loaderD [OF assms(1)] obtain page where
    tok: "truthy accessToken"
    and p: "getThreadsWithNextPageToken gmail (listParams (GmailLabel gmail) query) = Inr page"
    and ids: "map thread_id (threads r)
              = map (the \<circ> t_id)
                  (filter (\<lambda>t. truthy (t_id t)) (arrange (?entries (pageThreadIds page))))"
    by blast
  have member: "\<exists>ts s. page_threads page = Some ts \<and> s \<in> set ts
                   \<and> summary_id s = Some (thread_id th)"
    if "th \<in> set (threads r)" for th
  proof -
    from that have "thread_id th \<in> set (map thread_id (threads r))" by simp
    then have "thread_id th
        \<in> (the \<circ> t_id) ` {t \<in> set (arrange (?entries (pageThreadIds page))). truthy (t_id t)}"
      by (simp only: ids set_map set_filter)
    then obtain t where t: "t \<in> set (arrange (?entries (pageThreadIds page)))"
      and tr: "truthy (t_id t)" and eq: "thread_id th = the (t_id t)"
      by auto
    have "set (arrange (?entries (pageThreadIds page))) = set (?entries (pageThreadIds page))"
      by (rule mset_eq_setD) (rule assms(2))
    with t have "t \<in> set (?entries (pageThreadIds page))" by simp
    then have "t_id t \<in> set (map t_id (?entries (pageThreadIds page)))" 
      unfolding set_map by (rule imageI)
    with keyed_entries_keys [of fetch "the accessToken" "pageThreadIds page"]
    have "t_id t \<in> Some ` set (pageThreadIds page)" by (rule subsetD)
    then obtain i where "t_id t = Some i" and "i \<in> set (pageThreadIds page)" by blast
    with eq have "thread_id th \<in> set (pageThreadIds page)" by simp
    then show ?thesis by (rule pageThreadIds_member)
  qed
  have same: "\<exists>r'.
      snd (getThreads (gmail\<lparr>getThreadsBatch := loadMessages arrange fetch\<rparr>) db' query
             accessToken emailAccountId) = Inr r'
      \<and> map thread_id (threads r') = map thread_id (threads r)" for db'
  proof -
    from getThreads_spec_loader [OF tok p, of arrange fetch db' emailAccountId]
    obtain r' where
      "snd (getThreads (gmail\<lparr>getThreadsBatch := loadMessages arrange fetch\<rparr>) db' query
             accessToken emailAccountId) = Inr r'"
      and "map thread_id (threads r')
              = map (the \<circ> t_id)
                  (filter (\<lambda>t. truthy (t_id t)) (arrange (?entries (pageThreadIds page))))"
      by blast
    then show ?thesis by (simp only: ids) blast
  qed
  from p member same show ?thesis by blast
qed

text \<open>C4 at the example page, where the store holds a pending record for \<open>A\<close>.\<close>

theorem join_soundness_witness:
  "\<exists>r page.
     snd (getThreads
            (example_gmail\<lparr>getThreadsBatch := loadMessages (\<lambda>entries. entries) example_fetch\<rparr>)
            example_db inbox_query (Some ''token'') ''acct'') = Inr r
     \<and> getThreadsWithNextPageToken example_gmail
          (listParams (GmailLabel example_gmail) inbox_query) = Inr page
     \<and> map thread_id (threads r) = [''A'']
     \<and> map thread_plan (threads r) = [Some (select_plan example_rule)]
     \<and> set (map thread_id (threads r)) \<subseteq> set (pageThreadIds page)"
proof -
  have g: "example_gmail\<lparr>getThreadsBatch := loadMessages (\<lambda>entries. entries) example_fetch\<rparr>
           = example_gmail"
    by (simp add: example_gmail_def)
  let ?r = "\<lparr>threads =
             [\<lparr>thread_id = ''A'',
               thread_messages =
                 [\<lparr>message_id = ''m1'', message_snippet = ''hello'',
                   message_headers = \<lparr>subject = [], sender = [], date = []\<rparr>\<rparr>],
               thread_snippet = ''hello'',
               thread_plan = Some (select_plan example_rule),
               thread_category = None\<rparr>],
           res_nextPageToken = Some ''cursor-2''\<rparr>"
  have r: "snd (getThreads
                 (example_gmail\<lparr>getThreadsBatch := loadMessages (\<lambda>entries. entries) example_fetch\<rparr>)
            example_db inbox_query (Some ''token'') ''acct'') = Inr ?r"
    by (simp add: g example_getThreads)
  have rearr: "mset ((\<lambda>entries. entries) entries) = mset entries"
    for entries :: "ThreadWithPayloadMessages list"
    by simp
  from join_soundness [OF r rearr] obtain page where
    p: "getThreadsWithNextPageToken example_gmail
          (listParams (GmailLabel example_gmail) inbox_query) = Inr page"
    by blast
  with example_list_call have "page = example_page" by simp
  with r p show ?thesis
    by (simp add: example_pageThreadIds)
qed






section \<open>Snippets\<close>

text \<open>
  C7 as stated fails: conversation \<open>A\<close> has two messages with the body previews
  \<open>first\<close> and \<open>last\<close>, and \<^verbatim>\<open>getOutlookThreads\<close> attaches \<open>first\<close>, which is
  not the preview of the last message.
\<close>

theorem outlook_snippet_counterexample:
  "snd (getOutlookThreads healthy_client example_db inbox_query (Some ''token'') ''acct'') =
     Inr \<lparr>threads =
            [\<lparr>thread_id = ''A'',
              thread_messages = [\<lparr>obj_id = ''m1'', bodyPreview = Some ''first''\<rparr>,
                                 \<lparr>obj_id = ''m2'', bodyPreview = Some ''last''\<rparr>],
              thread_snippet = ''first'',
              thread_plan = Some (select_plan example_rule),
              thread_category = None\<rparr>,
             \<lparr>thread_id = ''B'', thread_messages = [], thread_snippet = [],
              thread_plan = None, thread_category = None\<rparr>],
          res_nextPageToken = Some ''https://graph/next''\<rparr>
   \<and> bodyPreview (last [\<lparr>obj_id = ''m1'', bodyPreview = Some ''first''\<rparr>,
                         \<lparr>obj_id = ''m2'', bodyPreview = Some ''last''\<rparr>]) = Some ''last''
   \<and> ''first'' \<noteq> ''last''"
  by (simp add: example_getOutlookThreads)

text \<open>
  C7, amended. In \<^verbatim>\<open>getThreads\<close> the snippet of every retained thread is the decoded
  snippet field of the thread itself, present or not; no message is consulted. In
  \<^verbatim>\<open>getOutlookThreads\<close> it is the body preview of the first message fetched for the
  conversation, and empty when there is no message or no preview. In the reply-tracker
  response it is the snippet of the last message, absent for a thread without messages.
\<close>

theorem snippet_sources:
  "(\<forall>r. snd (getThreads gmail db query accessToken emailAccountId) = Inr r \<longrightarrow>
      (\<exists>page loaded.
          getThreadsWithNextPageToken gmail (listParams (GmailLabel gmail) query) = Inr page
          \<and> getThreadsBatch gmail (pageThreadIds page) (the accessToken) = Inr loaded
          \<and> map thread_snippet (threads r)
            = map (\<lambda>t. decodeSnippet gmail (t_snippet t))
                (filter (\<lambda>t. truthy (t_id t)) loaded)))
   \<and> (\<forall>r. snd (getOutlookThreads graphClient db query accessToken emailAccountId) = Inr r \<longrightarrow>
      (\<forall>th \<in> set (threads r).
          (\<exists>messagesRes. graphClient (messagesRequest (thread_id th)) = Inr messagesRes
              \<and> thread_messages th = responseValue messagesRes)
          \<and> thread_snippet th =
              (case thread_messages th of
                 [] \<Rightarrow> []
               | m # ms \<Rightarrow> (case bodyPreview m of None \<Rightarrow> [] | Some s \<Rightarrow> s))))
   \<and> map email_snippet (replyTrackerEmails tracked)
     = map (\<lambda>thread. if rt_messages thread = [] then None
                      else Some (message_snippet (last (rt_messages thread))))
         tracked"
proof (intro conjI allI impI ballI)
  fix r
  assume "snd (getThreads gmail db query accessToken emailAccountId) = Inr r"
  from getThreads_InrD [OF this] obtain page loaded where
    p: "getThreadsWithNextPageToken gmail (listParams (GmailLabel gmail) query) = Inr page"
    and l: "getThreadsBatch gmail (pageThreadIds page) (the accessToken) = Inr loaded"
    and r: "r = \<lparr>threads =
                   map the (filter isDefined
                     (map (withMessages gmail db emailAccountId
                             (findMany (executedRule db) emailAccountId (pageThreadIds page)))
                        loaded)),
                 res_nextPageToken = page_nextPageToken page\<rparr>"
    by blast
  have "map thread_snippet (threads r)
        = map (\<lambda>t. decodeSnippet gmail (t_snippet t)) (filter (\<lambda>t. truthy (t_id t)) loaded)"
    unfolding r by (simp only: ThreadsResponse.select_convs withMessages_snippets)
  with p l show "\<exists>page loaded.
          getThreadsWithNextPageToken gmail (listParams (GmailLabel gmail) query) = Inr page
          \<and> getThreadsBatch gmail (pageThreadIds page) (the accessToken) = Inr loaded
          \<and> map thread_snippet (threads r)
            = map (\<lambda>t. decodeSnippet gmail (t_snippet t))
                (filter (\<lambda>t. truthy (t_id t)) loaded)"
    by blast
next
  fix r th
  assume res: "snd (getOutlookThreads graphClient db query accessToken emailAccountId) = Inr r"
    and th: "th \<in> set (threads r)"
  from getOutlookThreads_InrD [OF res] obtain response ts where
    ts: "Promise_all
               (map (withOutlookMessages graphClient db emailAccountId
                       (findMany (executedRule db) emailAccountId
                          (map obj_id (responseValue response))))
                  (responseValue response)) = Inr ts"
    and r: "r = \<lparr>threads = ts, res_nextPageToken = or_none (odata_nextLink response)\<rparr>"
    by blast
  from th r have "th \<in> set ts" by simp
  from outlook_thread_member [OF ts this] obtain conv where
    "withOutlookMessages graphClient db emailAccountId
       (findMany (executedRule db) emailAccountId (map obj_id (responseValue response)))
       conv = Inr th"
    by blast
  note w = withOutlookMessages_Inr [OF this]
  from w show "\<exists>messagesRes. graphClient (messagesRequest (thread_id th)) = Inr messagesRes
              \<and> thread_messages th = responseValue messagesRes"
    by simp
  from w show "thread_snippet th =
              (case thread_messages th of
                 [] \<Rightarrow> []
               | m # ms \<Rightarrow> (case bodyPreview m of None \<Rightarrow> [] | Some s \<Rightarrow> s))"
    by simp
next
  show "map email_snippet (replyTrackerEmails tracked)
     = map (\<lambda>thread. if rt_messages thread = [] then None
                      else Some (message_snippet (last (rt_messages thread))))
         tracked"
    by (simp add: replyTrackerEmails_def last_opt_def)
qed

text \<open>C7, amended, at the example runs.\<close>

theorem snippet_sources_witness:
  "(\<exists>r. snd (getThreads example_gmail example_db inbox_query (Some ''token'') ''acct'') = Inr r
        \<and> map thread_snippet (threads r) = [decodeSnippet example_gmail (Some ''hello'')])
   \<and> (\<exists>r. snd (getOutlookThreads healthy_client example_db inbox_query (Some ''token'') ''acct'')
            = Inr r
        \<and> map thread_snippet (threads r) = [''first'', []])
   \<and> map email_snippet (replyTrackerEmails [example_tracked]) = [Some ''last'']"
proof -
  note t = snippet_sources
    [where gmail = example_gmail and db = example_db and query = inbox_query
       and accessToken = "Some ''token''" and emailAccountId = "''acct''"
       and graphClient = healthy_client and tracked = "[example_tracked]"]
  have d: "decodeSnippet example_gmail (Some ''hello'') = ''hello''"
    by (simp add: example_gmail_def or_string_def truthy_def)
  from t [THEN conjunct1] have a:
    "\<exists>r. snd (getThreads example_gmail example_db inbox_query (Some ''token'') ''acct'') = Inr r
        \<and> map thread_snippet (threads r) = [decodeSnippet example_gmail (Some ''hello'')]"
    by (simp add: example_getThreads d)
  from t [THEN conjunct2, THEN conjunct1] have b:
    "\<exists>r. snd (getOutlookThreads healthy_client example_db inbox_query (Some ''token'') ''acct'')
            = Inr r
        \<and> map thread_snippet (threads r) = [''first'', []]"
    by (simp add: example_getOutlookThreads)
  from t [THEN conjunct2, THEN conjunct2] have c:
    "map email_snippet (replyTrackerEmails [example_tracked]) = [Some ''last'']"
    by (simp add: example_tracked_def)
  from a b c show ?thesis by blast
qed

end
